theory Spec2Isabelle
  imports Complex_Main "HOL-Library.Word" "HOL-Library.Sublist"
begin

section \<open>Strings\<close>

text \<open>
  A JavaScript string is a sequence of UTF-16 code units. The regular expression of the
  suggestion plugin has no \<open>u\<close> flag, so it sees the string one code unit at a time.
\<close>

type_synonym code_unit = "16 word"
type_synonym js_string = "code_unit list"

text \<open>An ASCII literal as a JavaScript string.\<close>

definition js :: "string \<Rightarrow> js_string" where
  "js s = map of_char s"

text \<open>
  The characters the class \<open>\s\<close> matches: WhiteSpace and LineTerminator of ECMAScript
  (tab, LF, VT, FF, CR, space, NBSP, U+1680, U+2000 to U+200A, LS, PS, U+202F, U+205F,
  U+3000 and the byte order mark). \<open>\S\<close> is its complement.
\<close>

definition is_whitespace :: "code_unit \<Rightarrow> bool" where
  "is_whitespace c =
     (c = 0x09 \<or> c = 0x0A \<or> c = 0x0B \<or> c = 0x0C \<or> c = 0x0D \<or> c = 0x20 \<or> c = 0xA0
      \<or> c = 0x1680 \<or> (0x2000 \<le> c \<and> c \<le> 0x200A) \<or> c = 0x2028 \<or> c = 0x2029
      \<or> c = 0x202F \<or> c = 0x205F \<or> c = 0x3000 \<or> c = 0xFEFF)"

definition non_whitespace :: "code_unit \<Rightarrow> bool" where
  "non_whitespace c = (\<not> is_whitespace c)"

text \<open>
  \<^verbatim>\<open>/(\S+)$/.exec(text)\<close>: the matcher tries the start positions from the left; at a
  position it succeeds when everything from there to the end of the input is a non-empty
  run of \<open>\S\<close>. The result is the matched text (\<open>prefixWord[0]\<close>), or null.
\<close>

fun lastWord_exec :: "js_string \<Rightarrow> js_string option" where
  "lastWord_exec [] = None"
| "lastWord_exec (c # cs) =
     (if list_all non_whitespace (c # cs) then Some (c # cs) else lastWord_exec cs)"

text \<open>
  \<^verbatim>\<open>`id_${Math.floor(Math.random() * 0xFFFFFFFF)}`\<close>: the decimal digits of a natural
  number, after the prefix \<open>id_\<close>. The number drawn, below \<open>0xFFFFFFFF\<close>, is a
  parameter of the model.
\<close>

fun decimal :: "nat \<Rightarrow> js_string" where
  "decimal n =
     (if n < 10 then [of_nat (48 + n)]
      else decimal (n div 10) @ [of_nat (48 + n mod 10)])"

declare decimal.simps [simp del]

definition fresh_decorationID :: "nat \<Rightarrow> js_string" where
  "fresh_decorationID rnd = js ''id_'' @ decimal rnd"

section \<open>The suggestion plugin\<close>

subsection \<open>Data\<close>

text \<open>A range of document positions: \<open>rfrom\<close> is its \<open>from\<close>, \<open>rto\<close> its \<open>to\<close>.\<close>

record range_t =
  rfrom :: int
  rto :: int

text \<open>
  \<open>SuggestionPluginState\<close>; \<open>s_range\<close> is its \<open>range\<close> and \<open>s_text\<close> its
  \<open>text\<close>. The optional fields and the nullable ones are options: \<open>None\<close> is
  \<open>undefined\<close> for \<open>range\<close> and \<open>decorationID\<close>, and \<open>null\<close> for \<open>query\<close> and
  \<open>text\<close>.
\<close>

record plugin_state =
  active :: bool
  s_range :: "range_t option"
  decorationID :: "js_string option"
  query :: "js_string option"
  s_text :: "js_string option"
  wasCharTyped :: bool

text \<open>
  The options of \<open>Suggestion\<close> with a bearing on the plugin's state and props;
  \<open>trigger_char\<close> is the option \<open>char\<close>. \<open>allow\<close> is the caller's predicate on the
  range (the editor it also receives is fixed).
\<close>

record options =
  trigger_char :: js_string
  startOfLine :: bool
  decorationTag :: js_string
  decorationClass :: js_string
  allow :: "range_t \<Rightarrow> bool"

definition default_options :: options where
  "default_options =
     \<lparr>trigger_char = js ''/'', startOfLine = False, decorationTag = js ''span'',
      decorationClass = js ''suggestion'', allow = (\<lambda>_. True)\<rparr>"

text \<open>
  What \<open>apply\<close> reads of a transaction: the selection (\<open>selection.from\<close>, which is
  also \<open>selection.$from.pos\<close>, and \<open>selection.to\<close>), the depth of the resolved
  position \<open>$from\<close>, the position \<open>$from.before()\<close> in front of its parent node,
  and the document's \<open>textBetween(from, to, '\0', '\0')\<close>. The document model is the
  editing framework's and is taken as given.
\<close>

record transaction =
  sel_from :: int
  sel_to :: int
  depth :: int
  before :: int
  textBetween :: "int \<Rightarrow> int \<Rightarrow> js_string"

subsection \<open>The plugin state: init and apply\<close>

definition init :: plugin_state where
  "init = \<lparr>active = False, s_range = None, decorationID = None, query = None,
            s_text = None, wasCharTyped = False\<rparr>"

definition textFrom :: "transaction \<Rightarrow> int" where
  "textFrom tr = (if depth tr \<le> 0 then 0 else before tr)"

definition text_before :: "transaction \<Rightarrow> js_string" where
  "text_before tr = textBetween tr (textFrom tr) (sel_from tr)"

text \<open>\<open>prev.range && (selection.from < prev.range.from || selection.from > prev.range.to)\<close>\<close>

definition left_range :: "transaction \<Rightarrow> plugin_state \<Rightarrow> bool" where
  "left_range tr prev =
     (case s_range prev of
        None \<Rightarrow> False
      | Some r \<Rightarrow> sel_from tr < rfrom r \<or> sel_from tr > rto r)"

definition match_range :: "transaction \<Rightarrow> js_string \<Rightarrow> range_t" where
  "match_range tr m =
     \<lparr>rfrom = textFrom tr + int (length (text_before tr)) - int (length m) + 1,
      rto = textFrom tr + int (length (text_before tr)) + 1\<rparr>"

text \<open>\<open>prev.decorationID ? prev.decorationID : decorationID\<close>: the empty string is falsy.\<close>

definition keep_decorationID :: "js_string option \<Rightarrow> js_string \<Rightarrow> js_string" where
  "keep_decorationID old new =
     (case old of None \<Rightarrow> new | Some d \<Rightarrow> if d = [] then new else d)"

text \<open>The body of \<open>apply\<close> up to the final reset.\<close>

definition apply_match :: "options \<Rightarrow> nat \<Rightarrow> transaction \<Rightarrow> plugin_state \<Rightarrow> plugin_state" where
  "apply_match opts rnd tr prev =
     (if \<not> wasCharTyped prev then prev\<lparr>active := False\<rparr>
      else if sel_from tr = sel_to tr then
        (let next = (if left_range tr prev then prev\<lparr>active := False\<rparr> else prev)
         in if text_before tr \<noteq> [] then
              (case lastWord_exec (text_before tr) of
                 Some m \<Rightarrow>
                   if allow opts (match_range tr m) then
                     next\<lparr>active := True,
                          decorationID :=
                            Some (keep_decorationID (decorationID prev) (fresh_decorationID rnd)),
                          s_range := Some (match_range tr m),
                          s_text := Some m,
                          query := Some m\<rparr>
                   else next\<lparr>active := False\<rparr>
               | None \<Rightarrow> next\<lparr>active := False\<rparr>)
            else next)
      else prev\<lparr>active := False\<rparr>)"

text \<open>\<open>apply(transaction, prev)\<close>; \<open>rnd\<close> is the number \<open>Math.random\<close> yields.\<close>

definition plugin_apply :: "options \<Rightarrow> nat \<Rightarrow> transaction \<Rightarrow> plugin_state \<Rightarrow> plugin_state" where
  "plugin_apply opts rnd tr prev =
     (let next = apply_match opts rnd tr prev
      in if \<not> active next then
           next\<lparr>wasCharTyped := False, decorationID := None, s_range := None,
                query := None, s_text := None\<rparr>
         else next)"

subsection \<open>The props: handleTextInput and decorations\<close>

text \<open>
  \<open>handleTextInput(view, from, to, text)\<close> writes into the plugin state object of the
  current editor state. The first component is that object afterwards (\<open>None\<close> when
  \<open>getState\<close> finds none), the second the value returned (\<open>None\<close> is \<open>undefined\<close>).
\<close>

definition handleTextInput ::
  "plugin_state option \<Rightarrow> js_string \<Rightarrow> plugin_state option \<times> bool option" where
  "handleTextInput st txt =
     (case st of
        None \<Rightarrow> (None, None)
      | Some s \<Rightarrow> (Some (if txt \<noteq> [] then s\<lparr>wasCharTyped := True\<rparr> else s), Some False))"

text \<open>
  An inline decoration as \<open>Decoration.inline(from, to, attrs)\<close> receives it. A
  decoration set is the list of the decorations it holds.
\<close>

record decoration =
  d_from :: int
  d_to :: int
  nodeName :: js_string
  d_class :: js_string
  data_decoration_id :: "js_string option"

text \<open>
  \<open>DecorationSet.create(doc, decorations)\<close> is the editing framework's: the set it
  builds holds the inline decorations that are valid, those with \<open>from < to\<close>, and
  drops the others.
\<close>

definition DecorationSet_create :: "decoration list \<Rightarrow> decoration list" where
  "DecorationSet_create ds = filter (\<lambda>d. d_from d < d_to d) ds"

definition decorations :: "options \<Rightarrow> plugin_state \<Rightarrow> decoration list option" where
  "decorations opts s =
     (case s_range s of
        None \<Rightarrow> None
      | Some r \<Rightarrow>
          if \<not> active s then None
          else Some (DecorationSet_create
                 [\<lparr>d_from = rfrom r, d_to = rto r, nodeName = decorationTag opts,
                   d_class = decorationClass opts,
                   data_decoration_id = decorationID s\<rparr>]))"

subsection \<open>The plugin view: update\<close>

text \<open>
  The hooks a renderer may define. The hooks are the caller's code: the model records
  which are present, and \<open>update\<close> returns the calls it makes, in order.
\<close>

record renderer =
  has_onStart :: bool
  has_onUpdate :: bool
  has_onExit :: bool

datatype hook = OnExit | OnUpdate | OnStart

datatype error = TypeError

text \<open>
  A DOM element with its attributes. The document is seen through \<open>querySelector\<close>,
  a parameter of \<open>update\<close>. \<open>clientRect\<close> is a closure over the decoration node;
  it is modelled by the node it will measure.
\<close>

record element =
  attributes :: "(js_string \<times> js_string) list"

datatype client_rect_fn = BoundingClientRectOf element

record 'i suggestion_props =
  p_range :: "range_t option"
  p_query :: "js_string option"
  p_text :: "js_string option"
  p_items :: "'i list"
  p_command_range :: "range_t option"
  decorationNode :: "element option"
  clientRect :: "client_rect_fn option"

text \<open>
  \<open>state.decorationId\<close>: the state object has no property of this spelling (its
  field is \<open>decorationID\<close>), so the read yields \<open>undefined\<close>.
\<close>

definition decorationId :: "plugin_state \<Rightarrow> js_string option" where
  "decorationId s = None"

text \<open>A value interpolated into a template literal.\<close>

definition interpolate :: "js_string option \<Rightarrow> js_string" where
  "interpolate v = (case v of None \<Rightarrow> js ''undefined'' | Some s \<Rightarrow> s)"

text \<open>\<^verbatim>\<open>`[data-decoration-id="${v}"]`\<close>; 0x22 is the double quote.\<close>

definition decoration_selector :: "js_string option \<Rightarrow> js_string" where
  "decoration_selector v =
     js ''[data-decoration-id='' @ [0x22] @ interpolate v @ [0x22] @ js '']''"

definition moved :: "plugin_state \<Rightarrow> plugin_state \<Rightarrow> bool" where
  "moved prev next =
     (active prev \<and> active next \<and>
      (case (s_range prev, s_range next) of
         (Some a, Some b) \<Rightarrow> rfrom a \<noteq> rfrom b
       | _ \<Rightarrow> False))"

definition started :: "plugin_state \<Rightarrow> plugin_state \<Rightarrow> bool" where
  "started prev next = (\<not> active prev \<and> active next)"

definition stopped :: "plugin_state \<Rightarrow> plugin_state \<Rightarrow> bool" where
  "stopped prev next = (active prev \<and> \<not> active next)"

definition changed :: "plugin_state \<Rightarrow> plugin_state \<Rightarrow> bool" where
  "changed prev next =
     (\<not> started prev next \<and> \<not> stopped prev next \<and> query prev \<noteq> query next)"

definition handleStart :: "plugin_state \<Rightarrow> plugin_state \<Rightarrow> bool" where
  "handleStart prev next = (started prev next \<or> moved prev next)"

definition handleChange :: "plugin_state \<Rightarrow> plugin_state \<Rightarrow> bool" where
  "handleChange prev next = (changed prev next \<and> \<not> moved prev next)"

definition handleExit :: "plugin_state \<Rightarrow> plugin_state \<Rightarrow> bool" where
  "handleExit prev next = (stopped prev next \<or> moved prev next)"

definition make_props ::
  "(js_string option \<Rightarrow> 'i list) \<Rightarrow> (js_string \<Rightarrow> element option) \<Rightarrow>
   plugin_state \<Rightarrow> plugin_state \<Rightarrow> 'i suggestion_props" where
  "make_props items querySelector prev next =
     (let state = (if handleExit prev next \<and> \<not> handleStart prev next then prev else next);
          node = querySelector (decoration_selector (decorationId state))
      in \<lparr>p_range = s_range state,
          p_query = query state,
          p_text = s_text state,
          p_items = (if handleChange prev next \<or> handleStart prev next
                     then items (query state) else []),
          p_command_range = s_range state,
          decorationNode = node,
          clientRect = (case node of None \<Rightarrow> None | Some n \<Rightarrow> Some (BoundingClientRectOf n))\<rparr>)"

text \<open>
  \<open>update(view, prevState)\<close>, with \<open>prev\<close> and \<open>next\<close> the plugin states of the
  previous and the current editor state. Reading \<open>range.from\<close> of a state without a
  range throws; that happens in the test for \<open>moved\<close>, when both states are active.
\<close>

definition update ::
  "renderer \<Rightarrow> (js_string option \<Rightarrow> 'i list) \<Rightarrow> (js_string \<Rightarrow> element option) \<Rightarrow>
   plugin_state \<Rightarrow> plugin_state \<Rightarrow> error + (hook \<times> 'i suggestion_props) list" where
  "update rdr items querySelector prev next =
     (if active prev \<and> active next \<and> (s_range prev = None \<or> s_range next = None)
      then Inl TypeError
      else if \<not> handleStart prev next \<and> \<not> handleChange prev next \<and> \<not> handleExit prev next
      then Inr []
      else
        (let props = make_props items querySelector prev next
         in Inr ((if handleExit prev next \<and> has_onExit rdr then [(OnExit, props)] else [])
               @ (if handleChange prev next \<and> has_onUpdate rdr then [(OnUpdate, props)] else [])
               @ (if handleStart prev next \<and> has_onStart rdr then [(OnStart, props)] else []))))"

subsection \<open>The states the plugin goes through\<close>

text \<open>
  The editing framework creates the plugin state with \<open>init\<close>, replaces it with the
  result of \<open>apply\<close> at every transaction, and \<open>handleTextInput\<close> writes into it.
\<close>

inductive reachable :: "options \<Rightarrow> plugin_state \<Rightarrow> bool" for opts :: options where
  reach_init: "reachable opts init"
| reach_apply: "reachable opts s \<Longrightarrow> reachable opts (plugin_apply opts rnd tr s)"
| reach_input:
    "reachable opts s \<Longrightarrow> handleTextInput (Some s) txt = (Some s', r) \<Longrightarrow> reachable opts s'"

section \<open>The Editor component\<close>

text \<open>A route of the project; the component reads its \<open>id\<close>.\<close>

record route =
  route_id :: js_string

text \<open>
  The function \<open>handleDeleteRoute\<close> passes to \<open>setSelectedRouteID\<close>: \<open>r\<close> is the
  selection so far, \<open>routes\<close> the list of the render the handler belongs to. A function
  that ends without \<open>return\<close> yields \<open>undefined\<close>.
\<close>

definition selection_after_delete ::
  "route list \<Rightarrow> js_string \<Rightarrow> js_string option \<Rightarrow> js_string option" where
  "selection_after_delete routes ident r =
     (if r = Some ident then
        (case routes of [] \<Rightarrow> None | first # _ \<Rightarrow> Some (route_id first))
      else None)"

text \<open>
  \<open>handleDeleteRoute(id)\<close> on the pair of the store and the selected route ID;
  \<open>deleteRoute\<close> is the store's action.
\<close>

definition handleDeleteRoute ::
  "(js_string \<Rightarrow> 'store \<Rightarrow> 'store) \<Rightarrow> route list \<Rightarrow> js_string \<Rightarrow>
   'store \<times> js_string option \<Rightarrow> 'store \<times> js_string option" where
  "handleDeleteRoute deleteRoute routes ident st =
     (deleteRoute ident (fst st), selection_after_delete routes ident (snd st))"

text \<open>
  The splitter. \<open>useLocalStorage(key, initial)\<close> is a hook of a library: it yields the
  value and its setter, and is a parameter here. The \<open>div\<close> behind \<open>ref\<close> is
  present or not; of its style the handlers write \<open>pointerEvents\<close>.
\<close>

type_synonym sizes = "real list"

record pane =
  pointerEvents :: js_string

record 'st splitter =
  minWidths :: "real list"
  initialSizes :: sizes
  onResizeFinished :: "real \<Rightarrow> sizes \<Rightarrow> 'st \<times> pane option \<Rightarrow> 'st \<times> pane option"
  onResizeStarted :: "'st \<times> pane option \<Rightarrow> 'st \<times> pane option"

definition splitter_key :: js_string where
  "splitter_key = js ''project-board-splitter-sizes''"

definition default_sizes :: sizes where
  "default_sizes = [50, 50]"

definition handleResize ::
  "(sizes \<Rightarrow> 'st \<Rightarrow> 'st) \<Rightarrow> real \<Rightarrow> sizes \<Rightarrow> 'st \<times> pane option \<Rightarrow> 'st \<times> pane option" where
  "handleResize setSizes gutter newSizes st =
     (setSizes newSizes (fst st),
      map_option (\<lambda>p. p\<lparr>pointerEvents := js ''auto''\<rparr>) (snd st))"

definition onResizeStart :: "'st \<times> pane option \<Rightarrow> 'st \<times> pane option" where
  "onResizeStart st = (fst st, map_option (\<lambda>p. p\<lparr>pointerEvents := js ''none''\<rparr>) (snd st))"

definition Editor_splitter ::
  "(js_string \<Rightarrow> sizes \<Rightarrow> 'st \<Rightarrow> sizes \<times> (sizes \<Rightarrow> 'st \<Rightarrow> 'st)) \<Rightarrow> 'st \<Rightarrow> 'st splitter" where
  "Editor_splitter useLocalStorage st =
     (let (sizes, setSizes) = useLocalStorage splitter_key default_sizes st
      in \<lparr>minWidths = [400, 380],
          initialSizes = sizes,
          onResizeFinished = handleResize setSizes,
          onResizeStarted = onResizeStart\<rparr>)"

text \<open>
  Local storage as a map from keys to stored values, and the hook over it: the value
  stored under the key, or the initial value when there is none; the setter stores
  under the key.
\<close>

type_synonym storage = "js_string \<rightharpoonup> sizes"

definition useLocalStorage ::
  "js_string \<Rightarrow> sizes \<Rightarrow> storage \<Rightarrow> sizes \<times> (sizes \<Rightarrow> storage \<Rightarrow> storage)" where
  "useLocalStorage key initial st =
     ((case st key of None \<Rightarrow> initial | Some v \<Rightarrow> v), (\<lambda>v st'. st'(key \<mapsto> v)))"

section \<open>Notions of the specification\<close>

text \<open>
  The whitespace-delimited word immediately before the cursor: the longest run of
  non-whitespace code units that ends the text in front of the cursor.
\<close>

definition word_before_cursor :: "transaction \<Rightarrow> js_string" where
  "word_before_cursor tr = rev (takeWhile non_whitespace (rev (text_before tr)))"

text \<open>A state is normalized when an inactive state carries no suggestion data.\<close>

definition normalized :: "plugin_state \<Rightarrow> bool" where
  "normalized s =
     (\<not> active s \<longrightarrow>
        s_range s = None \<and> decorationID s = None \<and> query s = None \<and> s_text s = None
        \<and> \<not> wasCharTyped s)"

text \<open>
  How the plugin state changed between two editor states, in the words of the
  specification: the suggestion became active, became inactive, or moved (both states
  active with a different \<open>range.from\<close>).
\<close>

definition became_active :: "plugin_state \<Rightarrow> plugin_state \<Rightarrow> bool" where
  "became_active prev next = (\<not> active prev \<and> active next)"

definition became_inactive :: "plugin_state \<Rightarrow> plugin_state \<Rightarrow> bool" where
  "became_inactive prev next = (active prev \<and> \<not> active next)"

definition range_moved :: "plugin_state \<Rightarrow> plugin_state \<Rightarrow> bool" where
  "range_moved prev next =
     (active prev \<and> active next
      \<and> map_option rfrom (s_range prev) \<noteq> map_option rfrom (s_range next))"

text \<open>
  What holds of every state the plugin goes through: a decoration ID is never the empty
  string, and an active state has a range, a decoration ID and \<open>wasCharTyped\<close> set.
\<close>

definition state_inv :: "plugin_state \<Rightarrow> bool" where
  "state_inv s =
     (decorationID s \<noteq> Some []
      \<and> (active s \<longrightarrow> s_range s \<noteq> None \<and> decorationID s \<noteq> None \<and> wasCharTyped s))"

text \<open>The range of a state, when it has one, is not empty.\<close>

definition range_inv :: "plugin_state \<Rightarrow> bool" where
  "range_inv s = (case s_range s of None \<Rightarrow> True | Some r \<Rightarrow> rfrom r < rto r)"

section \<open>Example inputs\<close>

text \<open>
  A document that is one paragraph holding the text \<open>t\<close>: position 0 is in front of
  the paragraph and the text starts at position 1, so \<open>textBetween(f, u)\<close> is
  \<open>t.slice(max(f, 1) - 1, u - 1)\<close>.
\<close>

definition paragraph_text :: "js_string \<Rightarrow> int \<Rightarrow> int \<Rightarrow> js_string" where
  "paragraph_text t f u = drop (nat (max f 1 - 1)) (take (nat (u - 1)) t)"

text \<open>A transaction that leaves the cursor at position \<open>p\<close> of that paragraph.\<close>

definition cursor_at :: "js_string \<Rightarrow> int \<Rightarrow> transaction" where
  "cursor_at t p =
     \<lparr>sel_from = p, sel_to = p, depth = 1, before = 0, textBetween = paragraph_text t\<rparr>"

text \<open>The initial state after \<open>handleTextInput\<close> has seen a character.\<close>

definition typed_init :: plugin_state where
  "typed_init = init\<lparr>wasCharTyped := True\<rparr>"

text \<open>The state after a slash was typed into the empty paragraph.\<close>

definition slash_state :: plugin_state where
  "slash_state =
     \<lparr>active = True, s_range = Some \<lparr>rfrom = 1, rto = 2\<rparr>,
      decorationID = Some (js ''id_7''), query = Some (js ''/''), s_text = Some (js ''/''),
      wasCharTyped = True\<rparr>"

text \<open>A renderer with every hook.\<close>

definition full_renderer :: renderer where
  "full_renderer = \<lparr>has_onStart = True, has_onUpdate = True, has_onExit = True\<rparr>"

text \<open>
  A document given by its elements in document order, queried with a selector of the
  form \<^verbatim>\<open>[data-decoration-id="v"]\<close>: the first element that has the attribute with
  that value.
\<close>

definition query_document :: "element list \<Rightarrow> js_string \<Rightarrow> element option" where
  "query_document els sel =
     find (\<lambda>e. case map_of (attributes e) (js ''data-decoration-id'') of
                 None \<Rightarrow> False
               | Some v \<Rightarrow> sel = decoration_selector (Some v)) els"

text \<open>The element an inline decoration with the given ID is drawn as.\<close>

definition decoration_element :: "js_string \<Rightarrow> element" where
  "decoration_element d =
     \<lparr>attributes = [(js ''class'', js ''suggestion''), (js ''data-decoration-id'', d)]\<rparr>"

text \<open>An \<open>items\<close> callback that finds nothing.\<close>

definition no_items :: "js_string option \<Rightarrow> js_string list" where
  "no_items q = []"

section \<open>The regular expression\<close>

lemma takeWhile_snoc:
  "takeWhile P (xs @ [c]) =
     (if \<forall>x\<in>set xs. P x then (if P c then xs @ [c] else xs) else takeWhile P xs)"
  by (simp add: takeWhile_append)

text \<open>The match is the longest suffix of the text without whitespace, when it is not empty.\<close>

lemma lastWord_exec_takeWhile:
  "lastWord_exec t =
     (if rev (takeWhile non_whitespace (rev t)) = [] then None
      else Some (rev (takeWhile non_whitespace (rev t))))"
proof (induction t)
  case Nil
  show ?case by simp
next
  case (Cons c cs)
  have snoc: "takeWhile non_whitespace (rev (c # cs)) =
      (if list_all non_whitespace cs then (if non_whitespace c then rev (c # cs) else rev cs)
       else takeWhile non_whitespace (rev cs))"
    by (simp add: takeWhile_snoc list_all_iff)
  have all: "list_all non_whitespace cs \<Longrightarrow> takeWhile non_whitespace (rev cs) = rev cs"
    by (simp add: list_all_iff)
  show ?case
  proof (cases "list_all non_whitespace cs")
    case True
    show ?thesis
    proof (cases "non_whitespace c")
      case c: True
      with True show ?thesis
        by (simp only: snoc lastWord_exec.simps list.pred_inject) simp
    next
      case c: False
      with True show ?thesis
        by (simp only: snoc lastWord_exec.simps list.pred_inject Cons.IH all) simp
    qed
  next
    case False
    then show ?thesis
      by (simp only: snoc lastWord_exec.simps list.pred_inject Cons.IH) simp
  qed
qed

lemma lastWord_exec_Some:
  "lastWord_exec t = Some m \<Longrightarrow> m \<noteq> [] \<and> suffix m t \<and> list_all non_whitespace m"
  by (induction t) (auto split: if_splits intro: suffix_ConsI)

lemma lastWord_word:
  "lastWord_exec (text_before tr) =
     (if word_before_cursor tr = [] then None else Some (word_before_cursor tr))"
  by (simp add: word_before_cursor_def lastWord_exec_takeWhile)

lemma word_empty_text: "text_before tr = [] \<Longrightarrow> word_before_cursor tr = []"
  by (simp add: word_before_cursor_def)

section \<open>The state machine of apply\<close>

lemma active_plugin_apply:
  "active (plugin_apply opts rnd tr prev) = active (apply_match opts rnd tr prev)"
  by (simp add: plugin_apply_def Let_def)

lemma plugin_apply_active_eq:
  "active (plugin_apply opts rnd tr prev) \<Longrightarrow>
   plugin_apply opts rnd tr prev = apply_match opts rnd tr prev"
  by (simp add: plugin_apply_def Let_def split: if_splits)

lemma plugin_apply_inactive:
  "\<not> active (plugin_apply opts rnd tr prev) \<Longrightarrow> plugin_apply opts rnd tr prev = init"
  by (simp add: plugin_apply_def Let_def init_def split: if_splits)

lemma active_apply_match:
  "active (apply_match opts rnd tr prev) \<longleftrightarrow>
     wasCharTyped prev \<and> sel_from tr = sel_to tr \<and>
     (if text_before tr = [] then active prev \<and> \<not> left_range tr prev
      else word_before_cursor tr \<noteq> [] \<and> allow opts (match_range tr (word_before_cursor tr)))"
  by (simp add: apply_match_def Let_def lastWord_word)

lemma s_range_apply_match_text:
  "active (apply_match opts rnd tr prev) \<Longrightarrow> text_before tr \<noteq> [] \<Longrightarrow>
   s_range (apply_match opts rnd tr prev) = Some (match_range tr (word_before_cursor tr))
   \<and> query (apply_match opts rnd tr prev) = Some (word_before_cursor tr)
   \<and> s_text (apply_match opts rnd tr prev) = Some (word_before_cursor tr)"
  by (simp add: apply_match_def Let_def lastWord_word split: if_splits)

lemma wasCharTyped_apply_match:
  "wasCharTyped (apply_match opts rnd tr prev) = wasCharTyped prev"
  by (simp add: apply_match_def Let_def split: option.splits)

lemma wasCharTyped_plugin_apply:
  "wasCharTyped (plugin_apply opts rnd tr prev) \<longleftrightarrow>
     wasCharTyped prev \<and> active (plugin_apply opts rnd tr prev)"
  by (simp add: plugin_apply_def Let_def wasCharTyped_apply_match)

subsection \<open>The example states are states of the plugin\<close>

lemma handleTextInput_init:
  "handleTextInput (Some init) (js ''/'') = (Some typed_init, Some False)"
  by (simp add: handleTextInput_def typed_init_def js_def)

lemma slash_state_apply:
  "plugin_apply default_options 7 (cursor_at (js ''/'') 2) typed_init = slash_state"
  by code_simp

lemma space_typed:
  "plugin_apply default_options 9 (cursor_at (js ''/ '') 3) slash_state = init"
  by code_simp

lemma reachable_typed_init: "reachable opts typed_init"
  using reach_input [OF reach_init handleTextInput_init] .

lemma reachable_slash_state: "reachable default_options slash_state"
  using reach_apply [OF reachable_typed_init, of default_options 7 "cursor_at (js ''/'') 2"]
  by (simp only: slash_state_apply)

subsection \<open>The trigger\<close>

text \<open>
  Claim C1, as stated, fails: with the default options, after the letter \<open>a\<close> is typed
  into an empty paragraph the state is active, and the word before the cursor, \<open>a\<close>,
  does not begin with the trigger character \<open>/\<close>. The options \<open>char\<close> and
  \<open>startOfLine\<close> are not read by \<open>apply\<close>.
\<close>

theorem apply_active_without_trigger:
  "active (plugin_apply default_options 0 (cursor_at (js ''a'') 2) typed_init)
   \<and> \<not> prefix (trigger_char default_options) (word_before_cursor (cursor_at (js ''a'') 2))"
  by code_simp

text \<open>
  Claim C1, amended: the state returned by \<open>apply\<close> is active exactly when a character
  was typed (\<open>wasCharTyped\<close> of the previous state), the selection is a cursor, and
  either the text in front of the cursor ends in a non-empty whitespace-delimited word,
  whatever its first character, whose range \<open>allow\<close> accepts, or there is no text in
  front of the cursor and the previous state was active with the cursor inside its range.
\<close>

theorem apply_active_iff:
  "active (plugin_apply opts rnd tr prev) \<longleftrightarrow>
     wasCharTyped prev \<and> sel_from tr = sel_to tr \<and>
     (if text_before tr = [] then active prev \<and> \<not> left_range tr prev
      else word_before_cursor tr \<noteq> [] \<and> allow opts (match_range tr (word_before_cursor tr)))"
  by (simp only: active_plugin_apply active_apply_match)

theorem apply_active_iff_witness:
  "active (plugin_apply default_options 7 (cursor_at (js ''/'') 2) typed_init)
   \<and> \<not> active (plugin_apply default_options 7 (cursor_at (js ''/ '') 3) typed_init)"
proof -
  have yes: "wasCharTyped typed_init
     \<and> sel_from (cursor_at (js ''/'') 2) = sel_to (cursor_at (js ''/'') 2)
     \<and> (if text_before (cursor_at (js ''/'') 2) = []
         then active typed_init \<and> \<not> left_range (cursor_at (js ''/'') 2) typed_init
         else word_before_cursor (cursor_at (js ''/'') 2) \<noteq> []
           \<and> allow default_options
               (match_range (cursor_at (js ''/'') 2) (word_before_cursor (cursor_at (js ''/'') 2))))"
    by code_simp
  have no: "\<not> (wasCharTyped typed_init
     \<and> sel_from (cursor_at (js ''/ '') 3) = sel_to (cursor_at (js ''/ '') 3)
     \<and> (if text_before (cursor_at (js ''/ '') 3) = []
         then active typed_init \<and> \<not> left_range (cursor_at (js ''/ '') 3) typed_init
         else word_before_cursor (cursor_at (js ''/ '') 3) \<noteq> []
           \<and> allow default_options
               (match_range (cursor_at (js ''/ '') 3)
                  (word_before_cursor (cursor_at (js ''/ '') 3)))))"
    by code_simp
  have a: "active (plugin_apply default_options 7 (cursor_at (js ''/'') 2) typed_init)"
    by (rule iffD2 [OF apply_active_iff yes])
  have b: "\<not> active (plugin_apply default_options 7 (cursor_at (js ''/ '') 3) typed_init)"
  proof
    assume "active (plugin_apply default_options 7 (cursor_at (js ''/ '') 3) typed_init)"
    then show False
      by (rule notE [OF no iffD1 [OF apply_active_iff]])
  qed
  from a b show ?thesis by (rule conjI)
qed

subsection \<open>Leaving the range\<close>

text \<open>
  Claim C4, as stated, fails: the previous state is active on the slash at positions 1
  to 2, the transaction leaves the cursor at position 3 behind \<open>/a\<close>, outside that
  range, and the resulting state is active. After \<open>apply\<close> has reset \<open>active\<close> it
  goes on to match the text in front of the new cursor position.
\<close>

theorem outside_range_reactivates:
  "active slash_state \<and> s_range slash_state = Some \<lparr>rfrom = 1, rto = 2\<rparr>
   \<and> sel_from (cursor_at (js ''/a'') 3) = sel_to (cursor_at (js ''/a'') 3)
   \<and> sel_from (cursor_at (js ''/a'') 3) > 2
   \<and> active (plugin_apply default_options 8 (cursor_at (js ''/a'') 3) slash_state)"
  by code_simp

text \<open>
  Claim C4, amended: when the previous state is active with a range and the selection
  is a cursor in front of \<open>range.from\<close> or behind \<open>range.to\<close>, the resulting state
  is inactive unless a character was typed and the text in front of the cursor ends in
  a non-empty whitespace-delimited word whose range \<open>allow\<close> accepts; in that case
  the state is active on the range of that word.
\<close>

theorem apply_outside_range:
  assumes "active prev" and "s_range prev = Some r" and "sel_from tr = sel_to tr"
    and "sel_from tr < rfrom r \<or> sel_from tr > rto r"
  shows "(active (plugin_apply opts rnd tr prev) \<longleftrightarrow>
            wasCharTyped prev \<and> word_before_cursor tr \<noteq> []
            \<and> allow opts (match_range tr (word_before_cursor tr)))
         \<and> (active (plugin_apply opts rnd tr prev) \<longrightarrow>
               s_range (plugin_apply opts rnd tr prev)
                 = Some (match_range tr (word_before_cursor tr)))"
proof -
  from assms have left: "left_range tr prev" by (simp add: left_range_def)
  have iff: "active (plugin_apply opts rnd tr prev) \<longleftrightarrow>
            wasCharTyped prev \<and> word_before_cursor tr \<noteq> []
            \<and> allow opts (match_range tr (word_before_cursor tr))"
    using left assms(3) word_empty_text [of tr]
    by (auto simp add: active_plugin_apply active_apply_match)
  have "s_range (plugin_apply opts rnd tr prev) = Some (match_range tr (word_before_cursor tr))"
    if act: "active (plugin_apply opts rnd tr prev)"
  proof -
    from act iff have "word_before_cursor tr \<noteq> []" by simp
    then have "text_before tr \<noteq> []" using word_empty_text by blast
    moreover from act have "active (apply_match opts rnd tr prev)"
      by (simp add: active_plugin_apply)
    ultimately show ?thesis
      using s_range_apply_match_text plugin_apply_active_eq [OF act] by simp
  qed
  with iff show ?thesis by blast
qed

theorem apply_outside_range_witness:
  "active (plugin_apply default_options 8 (cursor_at (js ''/a'') 3) slash_state)
   \<and> s_range (plugin_apply default_options 8 (cursor_at (js ''/a'') 3) slash_state)
       = Some \<lparr>rfrom = 1, rto = 3\<rparr>
   \<and> \<not> active (plugin_apply default_options 8 (cursor_at (js ''/ '') 3) slash_state)"
proof -
  have a: "active slash_state" by code_simp
  have r: "s_range slash_state = Some \<lparr>rfrom = 1, rto = 2\<rparr>" by code_simp
  have c: "sel_from (cursor_at (js ''/a'') 3) = sel_to (cursor_at (js ''/a'') 3)"
    by code_simp
  have out: "sel_from (cursor_at (js ''/a'') 3) < rfrom \<lparr>rfrom = 1, rto = 2\<rparr>
     \<or> sel_from (cursor_at (js ''/a'') 3) > rto \<lparr>rfrom = 1, rto = 2\<rparr>"
    by code_simp
  have w: "wasCharTyped slash_state \<and> word_before_cursor (cursor_at (js ''/a'') 3) \<noteq> []
     \<and> allow default_options
         (match_range (cursor_at (js ''/a'') 3) (word_before_cursor (cursor_at (js ''/a'') 3)))"
    by code_simp
  have m: "match_range (cursor_at (js ''/a'') 3) (word_before_cursor (cursor_at (js ''/a'') 3))
     = \<lparr>rfrom = 1, rto = 3\<rparr>"
    by code_simp
  have c': "sel_from (cursor_at (js ''/ '') 3) = sel_to (cursor_at (js ''/ '') 3)"
    by code_simp
  have out': "sel_from (cursor_at (js ''/ '') 3) < rfrom \<lparr>rfrom = 1, rto = 2\<rparr>
     \<or> sel_from (cursor_at (js ''/ '') 3) > rto \<lparr>rfrom = 1, rto = 2\<rparr>"
    by code_simp
  have w': "word_before_cursor (cursor_at (js ''/ '') 3) = []"
    by code_simp
  from apply_outside_range [OF a r c out, of default_options 8]
    apply_outside_range [OF a r c' out', of default_options 8] w m w'
  show ?thesis by simp
qed

subsection \<open>The gate on typed characters\<close>

text \<open>
  Claim C5: when \<open>wasCharTyped\<close> of the previous state is false, \<open>apply\<close> returns an
  inactive state, whatever the selection. \<open>wasCharTyped\<close> is set to true by
  \<open>handleTextInput\<close> when the text entered is not empty and by nothing else: the
  initial state has it false, \<open>apply\<close> returns it true only when the previous state
  had it true, and \<open>handleTextInput\<close> with an empty text leaves the state as it is.
\<close>

theorem wasCharTyped_gate:
  "(\<not> wasCharTyped prev \<longrightarrow> \<not> active (plugin_apply opts rnd tr prev))
   \<and> (wasCharTyped (plugin_apply opts rnd tr prev) \<longrightarrow> wasCharTyped prev)
   \<and> \<not> wasCharTyped init
   \<and> handleTextInput (Some s) txt =
       (Some (s\<lparr>wasCharTyped := wasCharTyped s \<or> txt \<noteq> []\<rparr>), Some False)"
proof (intro conjI)
  show "\<not> wasCharTyped prev \<longrightarrow> \<not> active (plugin_apply opts rnd tr prev)"
    by (simp add: active_plugin_apply active_apply_match)
  show "wasCharTyped (plugin_apply opts rnd tr prev) \<longrightarrow> wasCharTyped prev"
    by (simp add: wasCharTyped_plugin_apply)
  show "\<not> wasCharTyped init" by (simp add: init_def)
  show "handleTextInput (Some s) txt =
       (Some (s\<lparr>wasCharTyped := wasCharTyped s \<or> txt \<noteq> []\<rparr>), Some False)"
    by (cases "wasCharTyped s") (simp_all add: handleTextInput_def)
qed

theorem wasCharTyped_gate_witness:
  "\<not> wasCharTyped init
   \<and> \<not> active (plugin_apply default_options 7 (cursor_at (js ''/'') 2) init)
   \<and> wasCharTyped (plugin_apply default_options 7 (cursor_at (js ''/'') 2) typed_init)
   \<and> wasCharTyped typed_init
   \<and> handleTextInput (Some init) (js ''/'') = (Some typed_init, Some False)
   \<and> handleTextInput (Some init) [] = (Some init, Some False)"
proof -
  have t: "wasCharTyped (plugin_apply default_options 7 (cursor_at (js ''/'') 2) typed_init)"
    by code_simp
  have i: "init\<lparr>wasCharTyped := wasCharTyped init \<or> js ''/'' \<noteq> []\<rparr> = typed_init"
    by code_simp
  have e: "init\<lparr>wasCharTyped := wasCharTyped init \<or> ([] :: js_string) \<noteq> []\<rparr> = init"
    by code_simp
  from wasCharTyped_gate [of init default_options 7 "cursor_at (js ''/'') 2" init "js ''/''"]
    wasCharTyped_gate [of typed_init default_options 7 "cursor_at (js ''/'') 2" init "[]"]
    t i e
  show ?thesis by simp
qed

subsection \<open>Inactive states carry no data\<close>

text \<open>
  Claim C7: every state returned by \<open>apply\<close>, and the initial state, is normalized:
  when \<open>active\<close> is false, \<open>range\<close> and \<open>decorationID\<close> are undefined, \<open>query\<close>
  and \<open>text\<close> are null and \<open>wasCharTyped\<close> is false.
\<close>

theorem apply_normalized:
  "normalized (plugin_apply opts rnd tr prev) \<and> normalized init"
proof
  show "normalized (plugin_apply opts rnd tr prev)"
    unfolding normalized_def
  proof
    assume "\<not> active (plugin_apply opts rnd tr prev)"
    then have "plugin_apply opts rnd tr prev = init" by (rule plugin_apply_inactive)
    then show "s_range (plugin_apply opts rnd tr prev) = None \<and>
      decorationID (plugin_apply opts rnd tr prev) = None \<and>
      query (plugin_apply opts rnd tr prev) = None \<and>
      s_text (plugin_apply opts rnd tr prev) = None \<and>
      \<not> wasCharTyped (plugin_apply opts rnd tr prev)"
      by (simp add: init_def)
  qed
  show "normalized init" by (simp add: normalized_def init_def)
qed

theorem apply_normalized_witness:
  "\<not> active (plugin_apply default_options 9 (cursor_at (js ''/ '') 3) slash_state)
   \<and> s_range (plugin_apply default_options 9 (cursor_at (js ''/ '') 3) slash_state) = None
   \<and> decorationID (plugin_apply default_options 9 (cursor_at (js ''/ '') 3) slash_state) = None
   \<and> query (plugin_apply default_options 9 (cursor_at (js ''/ '') 3) slash_state) = None
   \<and> s_text (plugin_apply default_options 9 (cursor_at (js ''/ '') 3) slash_state) = None
   \<and> \<not> wasCharTyped (plugin_apply default_options 9 (cursor_at (js ''/ '') 3) slash_state)"
proof -
  have n: "\<not> active (plugin_apply default_options 9 (cursor_at (js ''/ '') 3) slash_state)"
    by code_simp
  from apply_normalized [of default_options 9 "cursor_at (js ''/ '') 3" slash_state]
  have "normalized (plugin_apply default_options 9 (cursor_at (js ''/ '') 3) slash_state)"
    by (rule conjunct1)
  with n show ?thesis by (simp add: normalized_def)
qed

subsection \<open>The decoration ID\<close>

lemma fresh_decorationID_nonempty: "fresh_decorationID rnd \<noteq> []"
  by (simp add: fresh_decorationID_def js_def)

lemma keep_decorationID_nonempty: "new \<noteq> [] \<Longrightarrow> keep_decorationID old new \<noteq> []"
  by (simp add: keep_decorationID_def split: option.splits)

lemma keep_decorationID_Some: "d \<noteq> [] \<Longrightarrow> keep_decorationID (Some d) new = d"
  by (simp add: keep_decorationID_def)

lemma decorationID_apply_match:
  "decorationID (apply_match opts rnd tr prev) = decorationID prev
   \<or> decorationID (apply_match opts rnd tr prev)
        = Some (keep_decorationID (decorationID prev) (fresh_decorationID rnd))"
  by (simp add: apply_match_def Let_def split: option.splits)

lemma decorationID_apply_match_active:
  "active (apply_match opts rnd tr prev) \<Longrightarrow> text_before tr \<noteq> [] \<Longrightarrow>
   decorationID (apply_match opts rnd tr prev)
     = Some (keep_decorationID (decorationID prev) (fresh_decorationID rnd))"
  by (simp add: apply_match_def Let_def split: option.splits if_splits)

lemma state_inv_init: "state_inv init"
  by (simp add: state_inv_def init_def)

lemma state_inv_apply:
  assumes "state_inv s"
  shows "state_inv (plugin_apply opts rnd tr s)"
proof (cases "active (plugin_apply opts rnd tr s)")
  case False
  then show ?thesis using plugin_apply_inactive [OF False] state_inv_init by simp
next
  case True
  then have eq: "plugin_apply opts rnd tr s = apply_match opts rnd tr s"
    by (rule plugin_apply_active_eq)
  from True have act: "active (apply_match opts rnd tr s)" by (simp add: active_plugin_apply)
  then have typed: "wasCharTyped s" by (simp add: active_apply_match)
  show ?thesis
  proof (cases "text_before tr = []")
    case True
    with act typed have "apply_match opts rnd tr s = s"
      by (simp add: apply_match_def Let_def split: if_splits)
    with eq assms show ?thesis by simp
  next
    case False
    from decorationID_apply_match_active [OF act False] s_range_apply_match_text [OF act False]
      wasCharTyped_apply_match [of opts rnd tr s] typed act
    show ?thesis
      by (simp add: eq state_inv_def keep_decorationID_nonempty fresh_decorationID_nonempty)
  qed
qed

lemma state_inv_input:
  "state_inv s \<Longrightarrow> handleTextInput (Some s) txt = (Some s', r) \<Longrightarrow> state_inv s'"
  by (auto simp: handleTextInput_def state_inv_def split: if_splits)

lemma reachable_state_inv: "reachable opts s \<Longrightarrow> state_inv s"
  by (induction rule: reachable.induct) (auto intro: state_inv_init state_inv_apply state_inv_input)

text \<open>
  On any state: a decoration ID that is not the empty string is kept while the state
  stays active. The empty string is falsy and would be replaced; no state of the plugin
  has it.
\<close>

lemma decorationID_kept:
  assumes "decorationID prev = Some d" and "d \<noteq> []"
    and "active (plugin_apply opts rnd tr prev)"
  shows "decorationID (plugin_apply opts rnd tr prev) = Some d"
  using decorationID_apply_match [of opts rnd tr prev] assms(1,2)
  by (simp add: plugin_apply_active_eq [OF assms(3)] keep_decorationID_Some)

lemma decorationID_fresh:
  assumes "decorationID prev = None" and "active (plugin_apply opts rnd tr prev)"
    and "state_inv prev"
  shows "decorationID (plugin_apply opts rnd tr prev) = Some (fresh_decorationID rnd)"
proof -
  from assms(2) have act: "active (apply_match opts rnd tr prev)"
    by (simp add: active_plugin_apply)
  from assms(1,3) have "\<not> active prev" by (auto simp: state_inv_def)
  with act have "text_before tr \<noteq> []" by (auto simp: active_apply_match)
  from decorationID_apply_match_active [OF act this] assms(1) show ?thesis
    by (simp add: plugin_apply_active_eq [OF assms(2)] keep_decorationID_def)
qed

text \<open>
  Claim C8: for every step of \<open>apply\<close> from a state of the plugin to an active state,
  if the previous state is active and has a decoration ID, the resulting state has the
  same one; and the resulting ID differs from the previous one only when the previous
  state had none, in which case it is the freshly generated ID.
\<close>

theorem decorationID_stable:
  assumes "reachable opts prev" and "active (plugin_apply opts rnd tr prev)"
  shows "(\<forall>d. active prev \<and> decorationID prev = Some d \<longrightarrow>
            decorationID (plugin_apply opts rnd tr prev) = Some d)
         \<and> (decorationID (plugin_apply opts rnd tr prev) \<noteq> decorationID prev \<longrightarrow>
              decorationID prev = None
              \<and> decorationID (plugin_apply opts rnd tr prev) = Some (fresh_decorationID rnd))"
proof -
  from assms(1) have i: "state_inv prev" by (rule reachable_state_inv)
  show ?thesis
  proof (cases "decorationID prev")
    case None
    from decorationID_fresh [OF None assms(2) i] None show ?thesis by simp
  next
    case (Some d)
    with i have "d \<noteq> []" by (simp add: state_inv_def)
    from decorationID_kept [OF Some this assms(2)] Some show ?thesis by simp
  qed
qed

theorem decorationID_stable_witness:
  "reachable default_options slash_state
   \<and> active slash_state
   \<and> active (plugin_apply default_options 8 (cursor_at (js ''/a'') 3) slash_state)
   \<and> decorationID slash_state = Some (js ''id_7'')
   \<and> decorationID (plugin_apply default_options 8 (cursor_at (js ''/a'') 3) slash_state)
       = Some (js ''id_7'')
   \<and> reachable default_options typed_init
   \<and> decorationID typed_init = None
   \<and> decorationID (plugin_apply default_options 7 (cursor_at (js ''/'') 2) typed_init)
       = Some (js ''id_7'')"
proof -
  have a: "active (plugin_apply default_options 8 (cursor_at (js ''/a'') 3) slash_state)"
    by code_simp
  have b: "active slash_state \<and> decorationID slash_state = Some (js ''id_7'')"
    by code_simp
  have a': "active (plugin_apply default_options 7 (cursor_at (js ''/'') 2) typed_init)"
    by code_simp
  have b': "decorationID typed_init = None
     \<and> decorationID (plugin_apply default_options 7 (cursor_at (js ''/'') 2) typed_init)
         \<noteq> decorationID typed_init"
    by code_simp
  have f: "fresh_decorationID 7 = js ''id_7''"
    by code_simp
  from decorationID_stable [OF reachable_slash_state a] b
  have 1: "decorationID (plugin_apply default_options 8 (cursor_at (js ''/a'') 3) slash_state)
       = Some (js ''id_7'')"
    by blast
  from decorationID_stable [OF reachable_typed_init a'] b'
  have "decorationID (plugin_apply default_options 7 (cursor_at (js ''/'') 2) typed_init)
       = Some (fresh_decorationID 7)"
    by blast
  with f
  have 2: "decorationID (plugin_apply default_options 7 (cursor_at (js ''/'') 2) typed_init)
       = Some (js ''id_7'')"
    by (simp only:)
  from 1 2 a b b' reachable_slash_state reachable_typed_init [of default_options]
  show ?thesis by simp
qed

section \<open>The decorations\<close>

lemma range_inv_init: "range_inv init"
  by (simp add: range_inv_def init_def)

lemma match_range_nonempty:
  "m \<noteq> [] \<Longrightarrow> rfrom (match_range tr m) < rto (match_range tr m)"
  by (cases m) (simp_all add: match_range_def)

lemma range_inv_apply:
  assumes "range_inv s"
  shows "range_inv (plugin_apply opts rnd tr s)"
proof (cases "active (plugin_apply opts rnd tr s)")
  case False
  then show ?thesis using plugin_apply_inactive [OF False] range_inv_init by simp
next
  case True
  then have eq: "plugin_apply opts rnd tr s = apply_match opts rnd tr s"
    by (rule plugin_apply_active_eq)
  from True have act: "active (apply_match opts rnd tr s)" by (simp add: active_plugin_apply)
  show ?thesis
  proof (cases "text_before tr = []")
    case True
    with act have "apply_match opts rnd tr s = s"
      by (simp add: apply_match_def Let_def split: if_splits)
    with eq assms show ?thesis by simp
  next
    case False
    with act have "word_before_cursor tr \<noteq> []" by (simp add: active_apply_match)
    then have "rfrom (match_range tr (word_before_cursor tr))
        < rto (match_range tr (word_before_cursor tr))"
      by (rule match_range_nonempty)
    with s_range_apply_match_text [OF act False] show ?thesis
      by (simp add: eq range_inv_def)
  qed
qed

lemma range_inv_input:
  "range_inv s \<Longrightarrow> handleTextInput (Some s) txt = (Some s', r) \<Longrightarrow> range_inv s'"
  by (auto simp: handleTextInput_def range_inv_def split: if_splits)

lemma reachable_range_inv: "reachable opts s \<Longrightarrow> range_inv s"
  by (induction rule: reachable.induct) (auto intro: range_inv_init range_inv_apply range_inv_input)

lemma reachable_active_range:
  assumes "reachable opts s" and "active s"
  shows "\<exists>r. s_range s = Some r \<and> rfrom r < rto r"
proof -
  from reachable_state_inv [OF assms(1)] assms(2) obtain r where r: "s_range s = Some r"
    by (auto simp: state_inv_def)
  with reachable_range_inv [OF assms(1)] have "rfrom r < rto r"
    by (simp add: range_inv_def)
  with r show ?thesis by blast
qed

text \<open>
  Claim C6: for every state the plugin goes through, \<open>decorations\<close> returns null when
  the state is inactive or has no range; otherwise it returns the decoration set that
  holds exactly one inline decoration, from \<open>range.from\<close> to \<open>range.to\<close>, whose
  node name is \<open>decorationTag\<close>, whose class is \<open>decorationClass\<close> and whose
  \<open>data-decoration-id\<close> is the state's \<open>decorationID\<close>. The null cases hold of any
  state, and the other case of any active state whose range is not empty, as the ranges
  of the plugin's states are; on an empty or inverted range the set built is empty.
\<close>

theorem decorations_spec:
  "(\<not> active s \<or> s_range s = None \<longrightarrow> decorations opts s = None)
   \<and> (\<forall>r. active s \<and> s_range s = Some r \<and> (reachable opts s \<or> rfrom r < rto r) \<longrightarrow>
         decorations opts s =
           Some [\<lparr>d_from = rfrom r, d_to = rto r, nodeName = decorationTag opts,
                   d_class = decorationClass opts, data_decoration_id = decorationID s\<rparr>])
   \<and> (\<forall>r. active s \<and> s_range s = Some r \<and> \<not> rfrom r < rto r \<longrightarrow>
         decorations opts s = Some [])"
proof (intro conjI allI impI)
  assume "\<not> active s \<or> s_range s = None"
  then show "decorations opts s = None"
    by (auto simp: decorations_def split: option.splits)
next
  fix r
  assume a: "active s \<and> s_range s = Some r \<and> (reachable opts s \<or> rfrom r < rto r)"
  have "rfrom r < rto r"
  proof (cases "reachable opts s")
    case True
    with a reachable_active_range [of opts s] show ?thesis by auto
  next
    case False
    with a show ?thesis by blast
  qed
  with a show "decorations opts s =
           Some [\<lparr>d_from = rfrom r, d_to = rto r, nodeName = decorationTag opts,
                   d_class = decorationClass opts, data_decoration_id = decorationID s\<rparr>]"
    by (simp add: decorations_def DecorationSet_create_def)
next
  fix r
  assume "active s \<and> s_range s = Some r \<and> \<not> rfrom r < rto r"
  then show "decorations opts s = Some []"
    by (simp add: decorations_def DecorationSet_create_def)
qed

theorem decorations_spec_witness:
  "decorations default_options init = None
   \<and> reachable default_options slash_state
   \<and> decorations default_options slash_state =
       Some [\<lparr>d_from = 1, d_to = 2, nodeName = js ''span'', d_class = js ''suggestion'',
               data_decoration_id = Some (js ''id_7'')\<rparr>]
   \<and> decorations default_options (slash_state\<lparr>s_range := Some \<lparr>rfrom = 2, rto = 2\<rparr>\<rparr>)
       = Some []"
proof -
  have a: "\<not> active init \<or> s_range init = None" by code_simp
  have b: "active slash_state \<and> s_range slash_state = Some \<lparr>rfrom = 1, rto = 2\<rparr>"
    by code_simp
  have c: "decorationTag default_options = js ''span''
    \<and> decorationClass default_options = js ''suggestion''
    \<and> decorationID slash_state = Some (js ''id_7'')"
    by code_simp
  have e: "active (slash_state\<lparr>s_range := Some \<lparr>rfrom = 2, rto = 2\<rparr>\<rparr>)
    \<and> s_range (slash_state\<lparr>s_range := Some \<lparr>rfrom = 2, rto = 2\<rparr>\<rparr>)
        = Some \<lparr>rfrom = 2, rto = 2\<rparr>
    \<and> \<not> rfrom \<lparr>rfrom = 2, rto = 2\<rparr> < rto \<lparr>rfrom = 2, rto = 2\<rparr>"
    by code_simp
  from decorations_spec [of init default_options] a
  have 1: "decorations default_options init = None" by blast
  from decorations_spec [of slash_state default_options] b reachable_slash_state
  have "decorations default_options slash_state =
           Some [\<lparr>d_from = rfrom \<lparr>rfrom = 1, rto = 2\<rparr>, d_to = rto \<lparr>rfrom = 1, rto = 2\<rparr>,
                   nodeName = decorationTag default_options,
                   d_class = decorationClass default_options,
                   data_decoration_id = decorationID slash_state\<rparr>]"
    by blast
  with c have 2: "decorations default_options slash_state =
       Some [\<lparr>d_from = 1, d_to = 2, nodeName = js ''span'', d_class = js ''suggestion'',
               data_decoration_id = Some (js ''id_7'')\<rparr>]"
    by simp
  from decorations_spec [of "slash_state\<lparr>s_range := Some \<lparr>rfrom = 2, rto = 2\<rparr>\<rparr>" default_options] e
  have 3: "decorations default_options (slash_state\<lparr>s_range := Some \<lparr>rfrom = 2, rto = 2\<rparr>\<rparr>)
       = Some []"
    by blast
  from 1 reachable_slash_state 2 3 show ?thesis by blast
qed

section \<open>The view's update\<close>

lemma reachable_range: "reachable opts s \<Longrightarrow> active s \<longrightarrow> s_range s \<noteq> None"
  using reachable_state_inv [of opts s] by (simp add: state_inv_def)

lemma update_Inr:
  assumes "active prev \<longrightarrow> s_range prev \<noteq> None" and "active next \<longrightarrow> s_range next \<noteq> None"
  shows "update rdr items qs prev next =
     Inr ((if handleExit prev next \<and> has_onExit rdr
           then [(OnExit, make_props items qs prev next)] else [])
        @ (if handleChange prev next \<and> has_onUpdate rdr
           then [(OnUpdate, make_props items qs prev next)] else [])
        @ (if handleStart prev next \<and> has_onStart rdr
           then [(OnStart, make_props items qs prev next)] else []))"
  using assms by (auto simp: update_def Let_def)

lemma moved_range_moved:
  assumes "active prev \<longrightarrow> s_range prev \<noteq> None" and "active next \<longrightarrow> s_range next \<noteq> None"
  shows "moved prev next = range_moved prev next"
  using assms by (auto simp: moved_def range_moved_def split: option.splits)

text \<open>
  Claim C2: between two states of which the active ones have a range (as the states of
  the plugin do), \<open>update\<close> returns normally, calls each hook at most once, and, for the
  hooks the renderer defines: \<open>onStart\<close> is called iff the suggestion became active
  or moved; \<open>onUpdate\<close> iff the query changed and the suggestion neither became
  active, became inactive nor moved; \<open>onExit\<close> iff the suggestion became inactive or
  moved. When none of the three conditions holds, no hook is called.
\<close>

theorem update_hooks:
  assumes "active prev \<longrightarrow> s_range prev \<noteq> None" and "active next \<longrightarrow> s_range next \<noteq> None"
  shows "\<exists>calls. update rdr items qs prev next = Inr calls
     \<and> distinct (map fst calls)
     \<and> (OnStart \<in> fst ` set calls \<longleftrightarrow>
          has_onStart rdr \<and> (became_active prev next \<or> range_moved prev next))
     \<and> (OnUpdate \<in> fst ` set calls \<longleftrightarrow>
          has_onUpdate rdr \<and> query prev \<noteq> query next
          \<and> \<not> became_active prev next \<and> \<not> became_inactive prev next
          \<and> \<not> range_moved prev next)
     \<and> (OnExit \<in> fst ` set calls \<longleftrightarrow>
          has_onExit rdr \<and> (became_inactive prev next \<or> range_moved prev next))
     \<and> (\<not> (became_active prev next \<or> range_moved prev next)
        \<and> \<not> (query prev \<noteq> query next
              \<and> \<not> became_active prev next \<and> \<not> became_inactive prev next
              \<and> \<not> range_moved prev next)
        \<and> \<not> (became_inactive prev next \<or> range_moved prev next)
        \<longrightarrow> calls = [])"
proof -
  note mv = moved_range_moved [OF assms]
  show ?thesis
    unfolding update_Inr [OF assms]
    by (rule exI, intro conjI, rule refl)
      (auto simp: handleStart_def handleChange_def handleExit_def started_def stopped_def
        changed_def mv became_active_def became_inactive_def)
qed

theorem update_hooks_witness:
  "\<not> active typed_init
   \<and> s_range slash_state \<noteq> None
   \<and> (\<exists>calls. update full_renderer no_items (query_document []) typed_init slash_state
                 = Inr calls
        \<and> OnStart \<in> fst ` set calls \<and> OnUpdate \<notin> fst ` set calls
        \<and> OnExit \<notin> fst ` set calls)"
proof -
  have p: "active typed_init \<longrightarrow> s_range typed_init \<noteq> None" by code_simp
  have n: "active slash_state \<longrightarrow> s_range slash_state \<noteq> None" by code_simp
  have c: "has_onStart full_renderer \<and> became_active typed_init slash_state
     \<and> \<not> became_inactive typed_init slash_state \<and> \<not> range_moved typed_init slash_state"
    by code_simp
  have p': "\<not> active typed_init" by code_simp
  have n': "s_range slash_state \<noteq> None" by code_simp
  from update_hooks [OF p n, of full_renderer no_items "query_document []"] c p' n'
  show ?thesis by auto
qed

text \<open>
  Claim C3, as stated, fails: when the suggestion on the slash stops, the next state is
  inactive, \<open>decorations\<close> yields nothing for it, the document holds no decoration
  element, and \<open>onExit\<close> is called with \<open>decorationNode\<close> and \<open>clientRect\<close> null.
\<close>

theorem update_exit_null_node:
  "update full_renderer no_items (query_document []) slash_state init =
     Inr [(OnExit, \<lparr>p_range = Some \<lparr>rfrom = 1, rto = 2\<rparr>, p_query = Some (js ''/''),
                    p_text = Some (js ''/''), p_items = [],
                    p_command_range = Some \<lparr>rfrom = 1, rto = 2\<rparr>,
                    decorationNode = None, clientRect = None\<rparr>)]"
  by code_simp

text \<open>
  The selector \<open>update\<close> queries with interpolates \<open>state.decorationId\<close>, which no
  state has; it does not depend on the state's \<open>decorationID\<close>.
\<close>

lemma make_props_node:
  "decorationNode (make_props items qs prev next)
     = qs (js ''[data-decoration-id='' @ [0x22] @ js ''undefined'' @ [0x22] @ js '']'')
   \<and> clientRect (make_props items qs prev next)
     = map_option BoundingClientRectOf (decorationNode (make_props items qs prev next))"
  by (simp add: make_props_def Let_def decoration_selector_def decorationId_def interpolate_def
      split: option.splits)

text \<open>
  So when the suggestion starts and the document holds the element of its decoration,
  which the selector made from the state's \<open>decorationID\<close> would find, \<open>onStart\<close>
  is called without it.
\<close>

lemma update_start_misses_decoration:
  "decorations default_options slash_state =
     Some [\<lparr>d_from = 1, d_to = 2, nodeName = js ''span'', d_class = js ''suggestion'',
             data_decoration_id = Some (js ''id_7'')\<rparr>]
   \<and> query_document [decoration_element (js ''id_7'')] (decoration_selector (Some (js ''id_7'')))
       = Some (decoration_element (js ''id_7''))
   \<and> update full_renderer no_items (query_document [decoration_element (js ''id_7'')])
       typed_init slash_state =
     Inr [(OnStart, \<lparr>p_range = Some \<lparr>rfrom = 1, rto = 2\<rparr>, p_query = Some (js ''/''),
                     p_text = Some (js ''/''), p_items = [],
                     p_command_range = Some \<lparr>rfrom = 1, rto = 2\<rparr>,
                     decorationNode = None, clientRect = None\<rparr>)]"
  by code_simp

lemma update_calls_props:
  assumes "update rdr items qs prev next = Inr calls" and "(h, p) \<in> set calls"
  shows "p = make_props items qs prev next"
  using assms by (auto simp: update_def Let_def split: if_splits)

text \<open>
  Claim C3, amended: whenever a renderer hook is called, the \<open>decorationNode\<close> of its
  props is what a \<open>querySelector\<close> lookup in the document returned, which may be null,
  and \<open>clientRect\<close> is non-null exactly when \<open>decorationNode\<close> is, being then the
  function that measures that node.
\<close>

theorem update_props_node:
  assumes "update rdr items qs prev next = Inr calls" and "(h, p) \<in> set calls"
  shows "(\<exists>sel. decorationNode p = qs sel)
         \<and> (clientRect p \<noteq> None \<longleftrightarrow> decorationNode p \<noteq> None)
         \<and> (\<forall>n. decorationNode p = Some n \<longrightarrow> clientRect p = Some (BoundingClientRectOf n))"
proof -
  from assms have p: "p = make_props items qs prev next" by (rule update_calls_props)
  let ?q = "make_props items qs prev next"
  have rect: "clientRect ?q = map_option BoundingClientRectOf (decorationNode ?q)"
    using make_props_node by blast
  have 1: "\<exists>sel. decorationNode ?q = qs sel"
    using make_props_node by blast
  have 2: "clientRect ?q \<noteq> None \<longleftrightarrow> decorationNode ?q \<noteq> None"
    by (simp add: rect)
  have 3: "\<forall>n. decorationNode ?q = Some n \<longrightarrow> clientRect ?q = Some (BoundingClientRectOf n)"
    by (simp add: rect)
  from 1 2 3 show ?thesis unfolding p by blast
qed

theorem update_props_node_witness:
  "update full_renderer no_items (query_document []) slash_state init =
     Inr [(OnExit, \<lparr>p_range = Some \<lparr>rfrom = 1, rto = 2\<rparr>, p_query = Some (js ''/''),
                    p_text = Some (js ''/''), p_items = [],
                    p_command_range = Some \<lparr>rfrom = 1, rto = 2\<rparr>,
                    decorationNode = None, clientRect = None\<rparr>)]
   \<and> (\<exists>sel. query_document [] sel = None)"
proof -
  let ?p = "\<lparr>p_range = Some \<lparr>rfrom = 1, rto = 2\<rparr>, p_query = Some (js ''/''),
             p_text = Some (js ''/''), p_items = ([] :: js_string list),
             p_command_range = Some \<lparr>rfrom = 1, rto = 2\<rparr>,
             decorationNode = None, clientRect = None\<rparr>"
  have u: "update full_renderer no_items (query_document []) slash_state init
     = Inr [(OnExit, ?p)]"
    by code_simp
  have m: "(OnExit, ?p) \<in> set [(OnExit, ?p)]" by simp
  from update_props_node [OF u m] have "\<exists>sel. decorationNode ?p = query_document [] sel"
    by (rule conjunct1)
  then obtain sel where "decorationNode ?p = query_document [] sel" ..
  then have "query_document [] sel = None" by simp
  then have "\<exists>sel. query_document [] sel = None" ..
  with u show ?thesis by (rule conjI)
qed

section \<open>The Editor component\<close>

text \<open>
  Claim C9: \<open>handleDeleteRoute(id)\<close> has the store delete the route and updates the
  selected route ID: when the selected ID equals \<open>id\<close>, to the ID of the first route
  of the list the handler was rendered with, or to undefined when that list is empty;
  otherwise to undefined, so that deleting a route that is not selected clears the
  selection too.
\<close>

theorem handleDeleteRoute_selection:
  "handleDeleteRoute del routes ident (st, sel) =
     (del ident st,
      if sel = Some ident then (if routes = [] then None else Some (route_id (hd routes)))
      else None)"
  by (cases routes) (simp_all add: handleDeleteRoute_def selection_after_delete_def)

theorem handleDeleteRoute_selection_witness:
  "handleDeleteRoute (\<lambda>i rs. filter (\<lambda>r. route_id r \<noteq> i) rs)
     [\<lparr>route_id = js ''a''\<rparr>, \<lparr>route_id = js ''b''\<rparr>] (js ''b'')
     ([\<lparr>route_id = js ''a''\<rparr>, \<lparr>route_id = js ''b''\<rparr>], Some (js ''b''))
     = ([\<lparr>route_id = js ''a''\<rparr>], Some (js ''a''))
   \<and> handleDeleteRoute (\<lambda>i rs. filter (\<lambda>r. route_id r \<noteq> i) rs)
     [\<lparr>route_id = js ''a''\<rparr>, \<lparr>route_id = js ''b''\<rparr>] (js ''b'')
     ([\<lparr>route_id = js ''a''\<rparr>, \<lparr>route_id = js ''b''\<rparr>], Some (js ''a''))
     = ([\<lparr>route_id = js ''a''\<rparr>], None)"
  using handleDeleteRoute_selection
     [of "\<lambda>i rs. filter (\<lambda>r. route_id r \<noteq> i) rs"
         "[\<lparr>route_id = js ''a''\<rparr>, \<lparr>route_id = js ''b''\<rparr>]" "js ''b''"
         "[\<lparr>route_id = js ''a''\<rparr>, \<lparr>route_id = js ''b''\<rparr>]" "Some (js ''b'')"]
    handleDeleteRoute_selection
     [of "\<lambda>i rs. filter (\<lambda>r. route_id r \<noteq> i) rs"
         "[\<lparr>route_id = js ''a''\<rparr>, \<lparr>route_id = js ''b''\<rparr>]" "js ''b''"
         "[\<lparr>route_id = js ''a''\<rparr>, \<lparr>route_id = js ''b''\<rparr>]" "Some (js ''a'')"]
  by (simp add: js_def)

text \<open>
  Claim C10: the splitter sizes are read with \<open>useLocalStorage\<close> under the key
  \<open>project-board-splitter-sizes\<close> with the default \<open>[50, 50]\<close>, whatever the hook
  yields is passed to the splitter as its initial sizes, and a finished resize hands the
  new sizes to the hook's setter. With local storage behind the hook: the initial sizes
  are the value stored under the key, or \<open>[50, 50]\<close> when there is none, and a
  finished resize stores the new sizes under that key.
\<close>

theorem splitter_sizes_persisted:
  "splitter_key = js ''project-board-splitter-sizes''
   \<and> initialSizes (Editor_splitter uls st0) = fst (uls splitter_key [50, 50] st0)
   \<and> fst (onResizeFinished (Editor_splitter uls st0) g newSizes (st1, pn))
       = snd (uls splitter_key [50, 50] st0) newSizes st1
   \<and> initialSizes (Editor_splitter useLocalStorage st) =
       (case st splitter_key of None \<Rightarrow> [50, 50] | Some v \<Rightarrow> v)
   \<and> fst (onResizeFinished (Editor_splitter useLocalStorage st) g newSizes (st', pn))
       = st'(splitter_key \<mapsto> newSizes)"
  by (simp add: Editor_splitter_def useLocalStorage_def handleResize_def default_sizes_def
      splitter_key_def split: prod.splits)

theorem splitter_sizes_persisted_witness:
  "initialSizes (Editor_splitter useLocalStorage Map.empty) = [50, 50]
   \<and> initialSizes (Editor_splitter useLocalStorage
        (fst (onResizeFinished (Editor_splitter useLocalStorage Map.empty) 0 [30, 70]
               (Map.empty, None)))) = [30, 70]"
  using splitter_sizes_persisted [of useLocalStorage Map.empty 0 "[30, 70]" Map.empty None
      Map.empty Map.empty]
    splitter_sizes_persisted [of useLocalStorage Map.empty 0 "[30, 70]" Map.empty None
      "Map.empty(splitter_key \<mapsto> [30, 70])" Map.empty]
  by simp

end
